theory Spec2Isabelle
  imports Main
begin

section \<open>The process state seen by the credential resolver\<close>

text \<open>
  \<^verbatim>\<open>utils.py\<close> reads and writes \<^verbatim>\<open>os.environ\<close>, reads a local \<^verbatim>\<open>.env\<close> file through
  \<^verbatim>\<open>load_dotenv()\<close>, prints one line and reads one line through \<^verbatim>\<open>getpass\<close>.
  The record below is that part of the process state:
  \<^item> \<open>environ\<close>: \<^verbatim>\<open>os.environ\<close>, a dictionary from names to values;
  \<^item> \<open>dotenv_file\<close>: the name/value bindings of the \<^verbatim>\<open>.env\<close> file that
    \<^verbatim>\<open>load_dotenv()\<close> finds, \<open>None\<close> when there is no such file;
  \<^item> \<open>stdin\<close>: the lines the user will type, in order;
  \<^item> \<open>getpass_calls\<close>: the prompts with which \<^verbatim>\<open>getpass\<close> has been called so far;
  \<^item> \<open>stdout\<close>: the lines printed so far.
\<close>

record world =
  environ :: "string \<rightharpoonup> string"
  dotenv_file :: "(string \<rightharpoonup> string) option"
  stdin :: "string list"
  getpass_calls :: "string list"
  stdout :: "string list"

datatype error = ImportError string | EOFError | ValueError string | LibraryError string

text \<open>
  A call either returns a value or raises; the process state it leaves behind is kept
  in both cases, since what was written before an exception stays written.
\<close>

type_synonym 'a result = "(error \<times> world) + ('a \<times> world)"

definition returned :: "'a result \<Rightarrow> 'a option" where
  "returned r = (case r of Inl _ \<Rightarrow> None | Inr (v, _) \<Rightarrow> Some v)"

definition raised :: "'a result \<Rightarrow> error option" where
  "raised r = (case r of Inl (e, _) \<Rightarrow> Some e | Inr _ \<Rightarrow> None)"

definition final_world :: "'a result \<Rightarrow> world" where
  "final_world r = (case r of Inl (_, w) \<Rightarrow> w | Inr (_, w) \<Rightarrow> w)"

definition OPENAI_API_KEY :: string where
  "OPENAI_API_KEY = ''OPENAI_API_KEY''"

definition OPENAI_MODEL_NAME :: string where
  "OPENAI_MODEL_NAME = ''OPENAI_MODEL_NAME''"

subsection \<open>Library calls used by \<^verbatim>\<open>utils.py\<close>\<close>

text \<open>
  \<^verbatim>\<open>load_dotenv\<close> (python-dotenv) and \<^verbatim>\<open>getpass\<close> (standard library) are imported by
  \<^verbatim>\<open>utils.py\<close>, not defined in it. They are modelled by their documented behaviour for
  the arguments the source passes.

  \<^verbatim>\<open>load_dotenv()\<close> is called with its defaults, so \<^verbatim>\<open>override=False\<close>: a variable of the
  file is written into \<^verbatim>\<open>os.environ\<close> only when no variable of that name is set there
  (an empty value counts as set). Without a \<^verbatim>\<open>.env\<close> file nothing changes. The file is
  taken as already parsed: a map from each name it assigns to the string assigned last
  (possibly empty); a name written without \<^verbatim>\<open>=\<close> is assigned nothing and is not in the
  map. The map holds the bindings as \<^verbatim>\<open>load_dotenv\<close> writes them, so its names and values
  are ones the environment accepts.
\<close>

definition load_dotenv :: "world \<Rightarrow> world" where
  "load_dotenv w =
     (case dotenv_file w of
        None \<Rightarrow> w
      | Some f \<Rightarrow>
          w\<lparr>environ := (\<lambda>k. case environ w k of Some v \<Rightarrow> Some v | None \<Rightarrow> f k)\<rparr>)"

text \<open>The value the \<^verbatim>\<open>.env\<close> file gives a name, if there is a file and it binds the name.\<close>

definition dotenv_lookup :: "world \<Rightarrow> string \<Rightarrow> string option" where
  "dotenv_lookup w k = (case dotenv_file w of None \<Rightarrow> None | Some f \<Rightarrow> f k)"

text \<open>
  \<^verbatim>\<open>getpass(prompt)\<close> shows the prompt and returns the next line typed, without echo;
  at end of input it raises \<^verbatim>\<open>EOFError\<close>. The call is recorded in both cases.
\<close>

definition getpass :: "string \<Rightarrow> world \<Rightarrow> string result" where
  "getpass prompt w =
     (let w' = w\<lparr>getpass_calls := getpass_calls w @ [prompt]\<rparr>
      in case stdin w of
           [] \<Rightarrow> Inl (EOFError, w')
         | l # ls \<Rightarrow> Inr (l, w'\<lparr>stdin := ls\<rparr>))"

definition py_print :: "string \<Rightarrow> world \<Rightarrow> world" where
  "py_print s w = w\<lparr>stdout := stdout w @ [s]\<rparr>"

text \<open>
  \<^verbatim>\<open>os.environ.get(k)\<close> returns the value or \<^verbatim>\<open>None\<close>. \<^verbatim>\<open>os.environ[k] = v\<close> stores the
  value, unless the operating system cannot hold it: a name or a value with a NUL
  character raises \<^verbatim>\<open>ValueError\<close> (embedded null byte), and so does an empty name or a
  name with \<^verbatim>\<open>=\<close> (illegal environment variable name). Nothing is stored then.
\<close>

definition has_nul :: "string \<Rightarrow> bool" where
  "has_nul s = (CHR 0x00 \<in> set s)"

definition os_environ_get :: "world \<Rightarrow> string \<Rightarrow> string option" where
  "os_environ_get w k = environ w k"

definition os_environ_set :: "string \<Rightarrow> string \<Rightarrow> world \<Rightarrow> unit result" where
  "os_environ_set k v w =
     (if has_nul k \<or> has_nul v then Inl (ValueError ''embedded null byte'', w)
      else if k = [] \<or> CHR ''='' \<in> set k
        then Inl (ValueError ''illegal environment variable name'', w)
      else Inr ((), w\<lparr>environ := (environ w)(k \<mapsto> v)\<rparr>))"

text \<open>
  Python's \<^verbatim>\<open>not x\<close> for \<^verbatim>\<open>x\<close> a string or \<^verbatim>\<open>None\<close>: true for \<^verbatim>\<open>None\<close> and for the empty
  string.
\<close>

fun py_not :: "string option \<Rightarrow> bool" where
  "py_not None = True"
| "py_not (Some s) = (s = [])"

section \<open>\<^verbatim>\<open>utils.py\<close>: the credential resolver\<close>

definition key_prompt :: string where
  "key_prompt = ''Please enter your OpenAI API key: ''"

definition key_missing_message :: string where
  "key_missing_message = ''OpenAI API key not found in environment variables.''"

text \<open>
  \<^verbatim>\<open>get_openai_api_key()\<close>, statement by statement: \<^verbatim>\<open>load_dotenv()\<close>; read the variable;
  when \<^verbatim>\<open>not api_key\<close>, print, ask with \<^verbatim>\<open>getpass\<close> and store the answer in the
  environment; return \<^verbatim>\<open>api_key\<close>. Nothing is caught: an exception of \<^verbatim>\<open>getpass\<close> or of
  the store ends the call.
\<close>

definition get_openai_api_key :: "world \<Rightarrow> string result" where
  "get_openai_api_key w0 =
     (let w1 = load_dotenv w0;
          api_key = os_environ_get w1 OPENAI_API_KEY
      in if py_not api_key then
           (let w2 = py_print key_missing_message w1
            in case getpass key_prompt w2 of
                 Inl (e, w3) \<Rightarrow> Inl (e, w3)
               | Inr (typed, w3) \<Rightarrow>
                   (case os_environ_set OPENAI_API_KEY typed w3 of
                      Inl (e, w4) \<Rightarrow> Inl (e, w4)
                    | Inr (_, w4) \<Rightarrow> Inr (typed, w4)))
         else
           (case api_key of
              Some v \<Rightarrow> Inr (v, w1)
            | None \<Rightarrow> Inr ([], w1)))"

text \<open>
  The last branch is never taken: \<open>py_not None\<close> holds, so in the \<^verbatim>\<open>else\<close> part
  \<^verbatim>\<open>api_key\<close> is a string. The \<open>case\<close> only unpacks it.
\<close>

text \<open>
  The process state right after the \<^verbatim>\<open>getpass\<close> call of the prompt branch has been
  made: the file loaded, the message printed, the call recorded.
\<close>

definition asked :: "world \<Rightarrow> world" where
  "asked w = (py_print key_missing_message (load_dotenv w))
               \<lparr>getpass_calls := getpass_calls w @ [key_prompt]\<rparr>"

subsection \<open>The algorithm as the specification words it\<close>

text \<open>
  The specification describes the resolver as: check the environment variable; if
  absent, load the local dotenv-style file into the environment and re-check; if still
  absent, prompt interactively; cache and return. The definition below follows these
  words, step by step. "Absent" is read as written: the variable is not set. "Cache"
  stores the resolved value under \<^verbatim>\<open>OPENAI_API_KEY\<close> in the environment; the
  specification names unavailable input as the only failure, so the store is a plain
  update.
\<close>

definition cache_and_return :: "string \<Rightarrow> world \<Rightarrow> string result" where
  "cache_and_return v w = Inr (v, w\<lparr>environ := (environ w)(OPENAI_API_KEY \<mapsto> v)\<rparr>)"

definition get_api_key_spec :: "world \<Rightarrow> string result" where
  "get_api_key_spec w0 =
     (case os_environ_get w0 OPENAI_API_KEY of
        Some v \<Rightarrow> cache_and_return v w0
      | None \<Rightarrow>
          (let w1 = load_dotenv w0
           in case os_environ_get w1 OPENAI_API_KEY of
                Some v \<Rightarrow> cache_and_return v w1
              | None \<Rightarrow>
                  (case getpass key_prompt w1 of
                     Inl (e, w2) \<Rightarrow> Inl (e, w2)
                   | Inr (typed, w2) \<Rightarrow> cache_and_return typed w2)))"

section \<open>\<^verbatim>\<open>agents.py\<close>: workers, tasks and the pipeline\<close>

text \<open>
  \<^verbatim>\<open>Agent\<close>, \<^verbatim>\<open>Task\<close> and \<^verbatim>\<open>Crew\<close> are classes of the orchestration library; the script
  only constructs them with keyword arguments. Each is modelled as the tuple of the
  arguments the script passes. A task whose \<^verbatim>\<open>context\<close> argument is omitted has the
  empty list of upstream tasks. The task bound to \<^verbatim>\<open>write\<close> in the script is
  \<open>write_task\<close> here, and the field \<^verbatim>\<open>context\<close> is \<open>task_context\<close>: both names
  are reserved words of Isabelle.
\<close>

record Agent =
  role :: string
  goal :: string
  backstory :: string
  allow_delegation :: bool
  verbose :: bool

datatype Task =
  Task (name: string) (description: string) (expected_output: string)
       (agent: Agent) (task_context: "Task list")

definition planner :: Agent where
  "planner = \<lparr>
     role = ''Blog content planner'',
     goal = ''Plan engaging and factually accurate content on {topic} for a compelling story-telling through blog contents'',
     backstory = ''You are working on planning a blog article ''
       @ ''about the topic: {topic}. ''
       @ ''You collect information, organize it in a well structured format that helps audience to consume the information easily and audience learn something ''
       @ ''and make informed decisions. ''
       @ ''Your work is the basis for the content writer to write an article / blog post on this topic'',
     allow_delegation = False,
     verbose = True\<rparr>"

definition writer :: Agent where
  "writer = \<lparr>
     role = ''Blog content writer'',
     goal = ''Write insightful and factually accurate, opinion piece, in a compelling story-telling format about the {topic}.'',
     backstory = ''You are working on writing ''
       @ ''a new opinion piece about the topic: {topic}. ''
       @ ''You base your writing on the work of ''
       @ ''the Content Planner, who provides an outline ''
       @ ''and relevant context about the topic. ''
       @ ''You follow the main objectives and direction of the outline, ''
       @ ''as provided by the Content Planner. ''
       @ ''You also provide objective and impartial insights ''
       @ ''and back them up with the information provided by the Content Planner. ''
       @ ''When your statements are opinions, as opposed to objective statements, ''
       @ ''make that clear to the reader.'',
     allow_delegation = False,
     verbose = True\<rparr>"

definition editor :: Agent where
  "editor = \<lparr>
     role = ''Blog content editor'',
     goal = ''Edit the blog content for clarity, coherence, grammar, and factual accuracy. Ensure the content flows well and is engaging for the target audience.'',
     backstory = ''You are working on editing a blog article about the topic: {topic}.'',
     allow_delegation = False,
     verbose = True\<rparr>"

definition plan :: Task where
  "plan = Task
     ''Plan the blog content''
     (''Create a detailed outline for a blog article on the topic: {topic}. with a call to action''
       @ ''Priortize the latest trends, key players and noteworthy news on {topic}.''
       @ ''Idenitfy and address the audience pain points and hook them on {topic}.''
       @ ''include SEO keywords and relevant data or sources.'')
     (''A comprehensive content plan document with an outline, audience analysis,.''
       @ ''SEO keywords, and resources'')
     planner
     []"

definition write_task :: Task where
  "write_task = Task
     ''Write the blog content''
     ''Write the blog content based on the outline created in the planning phase.''
     ''A comprehensive blog article based on the plan provided''
     writer
     [plan]"

definition edit :: Task where
  "edit = Task
     ''Edit the blog content''
     ''Edit the blog content for clarity, coherence, grammar, and factual accuracy.''
     ''A polished and refined blog article ready for publication.''
     editor
     [write_task]"

record Crew =
  agents :: "Agent list"
  tasks :: "Task list"
  crew_verbose :: bool

definition crew :: Crew where
  "crew = \<lparr>agents = [planner, writer, editor], tasks = [plan, write_task, edit],
            crew_verbose = True\<rparr>"

subsection \<open>Upstream tasks and template placeholders\<close>

text \<open>
  All tasks a task depends on, directly or through other tasks: its \<^verbatim>\<open>context\<close>, the
  \<^verbatim>\<open>context\<close> of each of those, and so on.
\<close>

fun upstream_closure :: "Task \<Rightarrow> Task list" where
  "upstream_closure (Task n d e a ctx) =
     concat (map (\<lambda>u. u # upstream_closure u) ctx)"

text \<open>
  The placeholders of a template string: the names written between \<^verbatim>\<open>{\<close> and the next
  \<^verbatim>\<open>}\<close>, in order of occurrence.
\<close>

fun placeholders :: "string \<Rightarrow> string list" where
  "placeholders [] = []"
| "placeholders (c # cs) =
     (if c = CHR ''{'' \<and> CHR ''}'' \<in> set cs
      then takeWhile (\<lambda>x. x \<noteq> CHR ''}'') cs # placeholders cs
      else placeholders cs)"

subsection \<open>The script\<close>

text \<open>
  The orchestration library is outside the repository. What the script calls of it is a
  parameter: the import of the package (line 4), the constructors of \<^verbatim>\<open>Agent\<close>, \<^verbatim>\<open>Task\<close>
  and \<^verbatim>\<open>Crew\<close>, and \<^verbatim>\<open>Crew.kickoff\<close>. Each is a function of the process state that either
  completes or raises; a constructor is given the descriptor built from its arguments,
  and the object it yields is that descriptor.
\<close>

record library =
  import_crewai :: "world \<Rightarrow> unit result"
  Agent_init :: "Agent \<Rightarrow> world \<Rightarrow> unit result"
  Task_init :: "Task \<Rightarrow> world \<Rightarrow> unit result"
  Crew_init :: "Crew \<Rightarrow> world \<Rightarrow> unit result"
  kickoff :: "Crew \<Rightarrow> (string \<rightharpoonup> string) \<Rightarrow> world \<Rightarrow> string result"

definition import_error_message :: string where
  "import_error_message =
     ''utils.py with get_openai_api_key() not found. Please add it to your project.''"

text \<open>The stub defined in the \<^verbatim>\<open>except ImportError\<close> branch.\<close>

definition fallback_get_openai_api_key :: "world \<Rightarrow> string result" where
  "fallback_get_openai_api_key w = Inl (ImportError import_error_message, w)"

text \<open>
  \<^verbatim>\<open>try: from utils import get_openai_api_key / except ImportError: def ...\<close>: the name
  is bound to the function of \<^verbatim>\<open>utils.py\<close> when the import succeeds and to the stub
  otherwise.
\<close>

definition import_get_openai_api_key :: "bool \<Rightarrow> world \<Rightarrow> string result" where
  "import_get_openai_api_key utils_importable =
     (if utils_importable then get_openai_api_key else fallback_get_openai_api_key)"

text \<open>
  Statements in sequence: each runs in the state the one before left, and the first
  that raises ends the run with its exception and state.
\<close>

fun run_steps :: "(world \<Rightarrow> unit result) list \<Rightarrow> world \<Rightarrow> unit result" where
  "run_steps [] w = Inr ((), w)"
| "run_steps (s # ss) w =
     (case s w of
        Inl (e, w') \<Rightarrow> Inl (e, w')
      | Inr (_, w') \<Rightarrow> run_steps ss w')"

text \<open>
  Lines 13 to 86 of \<^verbatim>\<open>agents.py\<close>, in order: the two environment writes, then the
  constructor calls for \<^verbatim>\<open>planner\<close>, \<^verbatim>\<open>writer\<close>, \<^verbatim>\<open>editor\<close>, \<^verbatim>\<open>plan\<close>, \<^verbatim>\<open>write\<close>, \<^verbatim>\<open>edit\<close> and
  \<^verbatim>\<open>crew\<close>.
\<close>

definition construction_steps :: "library \<Rightarrow> string \<Rightarrow> (world \<Rightarrow> unit result) list" where
  "construction_steps lib openai_api_key =
     [os_environ_set OPENAI_API_KEY openai_api_key,
      os_environ_set OPENAI_MODEL_NAME ''gpt-4'',
      Agent_init lib planner,
      Agent_init lib writer,
      Agent_init lib editor,
      Task_init lib plan,
      Task_init lib write_task,
      Task_init lib edit,
      Crew_init lib crew]"

text \<open>
  The module body up to line 86: import the library, bind \<^verbatim>\<open>get_openai_api_key\<close>, call
  it, run the statements above. It ends with the crew built, or with the first
  exception.
\<close>

definition assemble :: "bool \<Rightarrow> library \<Rightarrow> world \<Rightarrow> Crew result" where
  "assemble utils_importable lib w0 =
     (case import_crewai lib w0 of
        Inl (e, w1) \<Rightarrow> Inl (e, w1)
      | Inr (_, w1) \<Rightarrow>
          (case import_get_openai_api_key utils_importable w1 of
             Inl (e, w2) \<Rightarrow> Inl (e, w2)
           | Inr (openai_api_key, w2) \<Rightarrow>
               (case run_steps (construction_steps lib openai_api_key) w2 of
                  Inl (e, w3) \<Rightarrow> Inl (e, w3)
                | Inr (_, w3) \<Rightarrow> Inr (crew, w3))))"

text \<open>
  The whole module, with the topic of the last line as a parameter: line 88 submits the
  crew that was built, with the topic as the only input.
\<close>

definition agents_script :: "bool \<Rightarrow> library \<Rightarrow> string \<Rightarrow> world \<Rightarrow> string result" where
  "agents_script utils_importable lib topic w0 =
     (case assemble utils_importable lib w0 of
        Inl (e, w) \<Rightarrow> Inl (e, w)
      | Inr (c, w) \<Rightarrow> kickoff lib c [''topic'' \<mapsto> topic] w)"

definition agents_py :: "bool \<Rightarrow> library \<Rightarrow> world \<Rightarrow> string result" where
  "agents_py utils_importable lib =
     agents_script utils_importable lib
       ''AI Engineering and AI-first Engineering approach''"

section \<open>Example process states and libraries\<close>

definition world_env_key :: world where
  "world_env_key = \<lparr>environ = [OPENAI_API_KEY \<mapsto> ''sk-env''], dotenv_file = None,
     stdin = [], getpass_calls = [], stdout = []\<rparr>"

definition world_env_key_dotenv :: world where
  "world_env_key_dotenv = \<lparr>environ = [OPENAI_API_KEY \<mapsto> ''sk-env''],
     dotenv_file = Some [''LOG_LEVEL'' \<mapsto> ''debug''],
     stdin = [], getpass_calls = [], stdout = []\<rparr>"



definition world_no_key :: world where
  "world_no_key = \<lparr>environ = Map.empty, dotenv_file = None,
     stdin = [''sk-typed''], getpass_calls = [], stdout = []\<rparr>"

definition world_no_key_no_input :: world where
  "world_no_key_no_input = \<lparr>environ = Map.empty, dotenv_file = None,
     stdin = [], getpass_calls = [], stdout = []\<rparr>"

text \<open>The user types \<^verbatim>\<open>sk\<close>, a NUL character and \<^verbatim>\<open>x\<close>.\<close>

definition world_no_key_nul_typed :: world where
  "world_no_key_nul_typed = \<lparr>environ = Map.empty, dotenv_file = None,
     stdin = [[CHR ''s'', CHR ''k'', CHR 0x00, CHR ''x'']], getpass_calls = [],
     stdout = []\<rparr>"

text \<open>The user presses return on an empty line.\<close>

definition world_no_key_empty_typed :: world where
  "world_no_key_empty_typed = \<lparr>environ = Map.empty, dotenv_file = None,
     stdin = [[]], getpass_calls = [], stdout = []\<rparr>"

definition world_empty_env_key :: world where
  "world_empty_env_key = \<lparr>environ = [OPENAI_API_KEY \<mapsto> []], dotenv_file = None,
     stdin = [''sk-typed''], getpass_calls = [], stdout = []\<rparr>"

definition world_empty_env_key_no_input :: world where
  "world_empty_env_key_no_input = \<lparr>environ = [OPENAI_API_KEY \<mapsto> []],
     dotenv_file = None, stdin = [], getpass_calls = [], stdout = []\<rparr>"

definition world_empty_env_key_nul_typed :: world where
  "world_empty_env_key_nul_typed = \<lparr>environ = [OPENAI_API_KEY \<mapsto> []],
     dotenv_file = None, stdin = [[CHR ''s'', CHR ''k'', CHR 0x00, CHR ''x'']],
     getpass_calls = [], stdout = []\<rparr>"

text \<open>A library in which every call completes and \<^verbatim>\<open>kickoff\<close> answers with the topic.\<close>

definition stub_library :: library where
  "stub_library = \<lparr>
     import_crewai = (\<lambda>w. Inr ((), w)),
     Agent_init = (\<lambda>a w. Inr ((), w)),
     Task_init = (\<lambda>t w. Inr ((), w)),
     Crew_init = (\<lambda>c w. Inr ((), w)),
     kickoff = (\<lambda>c inputs w.
       case inputs ''topic'' of
         None \<Rightarrow> Inl (LibraryError ''missing input'', w)
       | Some t \<Rightarrow> Inr (''Article about '' @ t, w))\<rparr>"

text \<open>The same, with a \<^verbatim>\<open>kickoff\<close> that raises.\<close>

definition failing_library :: library where
  "failing_library =
     stub_library\<lparr>kickoff := (\<lambda>c inputs w. Inl (LibraryError ''connection refused'', w))\<rparr>"

text \<open>The same, with an \<^verbatim>\<open>Agent\<close> constructor that raises when the key is unset or empty.\<close>

definition strict_library :: library where
  "strict_library =
     stub_library\<lparr>Agent_init := (\<lambda>a w.
       if py_not (environ w OPENAI_API_KEY) then Inl (LibraryError ''no API key'', w)
       else Inr ((), w))\<rparr>"

text \<open>The same, with the package not installed.\<close>

definition missing_library :: library where
  "missing_library =
     stub_library\<lparr>import_crewai := (\<lambda>w. Inl (ImportError ''No module named crewai'', w))\<rparr>"

section \<open>Properties of the credential resolver\<close>

subsection \<open>What \<^verbatim>\<open>load_dotenv\<close> changes\<close>

lemma load_dotenv_fields [simp]:
  "stdin (load_dotenv w) = stdin w"
  "stdout (load_dotenv w) = stdout w"
  "getpass_calls (load_dotenv w) = getpass_calls w"
  "dotenv_file (load_dotenv w) = dotenv_file w"
  by (simp_all add: load_dotenv_def split: option.splits)

lemma load_dotenv_environ:
  "environ (load_dotenv w) k =
     (case environ w k of Some v \<Rightarrow> Some v | None \<Rightarrow> dotenv_lookup w k)"
  by (simp add: load_dotenv_def dotenv_lookup_def split: option.splits)

lemma load_dotenv_keeps_set:
  "environ w k = Some v \<Longrightarrow> environ (load_dotenv w) k = Some v"
  by (simp add: load_dotenv_environ)

lemma load_dotenv_no_file: "dotenv_file w = None \<Longrightarrow> load_dotenv w = w"
  by (simp add: load_dotenv_def)

subsection \<open>Writing the key into the environment\<close>

lemma os_environ_set_key:
  "os_environ_set OPENAI_API_KEY v w =
     (if has_nul v then Inl (ValueError ''embedded null byte'', w)
      else Inr ((), w\<lparr>environ := (environ w)(OPENAI_API_KEY \<mapsto> v)\<rparr>))"
  by (simp add: os_environ_set_def OPENAI_API_KEY_def has_nul_def)

lemma os_environ_set_model_name:
  "os_environ_set OPENAI_MODEL_NAME ''gpt-4'' w =
     Inr ((), w\<lparr>environ := (environ w)(OPENAI_MODEL_NAME \<mapsto> ''gpt-4'')\<rparr>)"
  by (simp add: os_environ_set_def OPENAI_MODEL_NAME_def has_nul_def)

subsection \<open>The two paths through \<^verbatim>\<open>get_openai_api_key\<close>\<close>

lemma get_openai_api_key_found:
  assumes "environ (load_dotenv w) OPENAI_API_KEY = Some v" and "v \<noteq> []"
  shows "get_openai_api_key w = Inr (v, load_dotenv w)"
  using assms by (simp add: get_openai_api_key_def os_environ_get_def Let_def)

lemma getpass_asked:
  "getpass key_prompt (py_print key_missing_message (load_dotenv w)) =
     (case stdin w of
        [] \<Rightarrow> Inl (EOFError, asked w)
      | l # ls \<Rightarrow> Inr (l, (asked w)\<lparr>stdin := ls\<rparr>))"
  by (simp add: getpass_def py_print_def asked_def Let_def split: list.splits)

lemma asked_fields [simp]:
  "getpass_calls (asked w) = getpass_calls w @ [key_prompt]"
  "environ (asked w) = environ (load_dotenv w)"
  by (simp_all add: asked_def py_print_def)

lemma get_openai_api_key_asks:
  assumes "py_not (environ (load_dotenv w) OPENAI_API_KEY)"
  shows "get_openai_api_key w =
           (case stdin w of
              [] \<Rightarrow> Inl (EOFError, asked w)
            | l # ls \<Rightarrow>
                if has_nul l then Inl (ValueError ''embedded null byte'', (asked w)\<lparr>stdin := ls\<rparr>)
                else Inr (l, (asked w)\<lparr>stdin := ls,
                       environ := (environ (load_dotenv w))(OPENAI_API_KEY \<mapsto> l)\<rparr>))"
proof -
  have "get_openai_api_key w =
          (case getpass key_prompt (py_print key_missing_message (load_dotenv w)) of
             Inl (e, w3) \<Rightarrow> Inl (e, w3)
           | Inr (typed, w3) \<Rightarrow>
               (case os_environ_set OPENAI_API_KEY typed w3 of
                  Inl (e, w4) \<Rightarrow> Inl (e, w4)
                | Inr (_, w4) \<Rightarrow> Inr (typed, w4)))"
    using assms by (simp add: get_openai_api_key_def os_environ_get_def Let_def)
  then show ?thesis
    by (simp add: getpass_asked os_environ_set_key split: list.splits)
qed

lemma final_world_asks:
  assumes "py_not (environ (load_dotenv w) OPENAI_API_KEY)"
  shows "getpass_calls (final_world (get_openai_api_key w)) = getpass_calls w @ [key_prompt]"
  using get_openai_api_key_asks [OF assms]
  by (simp add: final_world_def split: list.splits)

lemma returned_asks:
  assumes "py_not (environ (load_dotenv w) OPENAI_API_KEY)" and "stdin w = l # ls"
    and "\<not> has_nul l"
  shows "returned (get_openai_api_key w) = Some l"
    and "raised (get_openai_api_key w) = None"
    and "environ (final_world (get_openai_api_key w)) OPENAI_API_KEY = Some l"
  using get_openai_api_key_asks [OF assms(1)] assms(2,3)
  by (simp_all add: final_world_def returned_def raised_def)

lemma rejected_asks:
  assumes "py_not (environ (load_dotenv w) OPENAI_API_KEY)" and "stdin w = l # ls"
    and "has_nul l"
  shows "returned (get_openai_api_key w) = None"
    and "raised (get_openai_api_key w) = Some (ValueError ''embedded null byte'')"
    and "environ (final_world (get_openai_api_key w)) = environ (load_dotenv w)"
  using get_openai_api_key_asks [OF assms(1)] assms(2,3)
  by (simp_all add: final_world_def returned_def raised_def)

lemma eof_asks:
  assumes "py_not (environ (load_dotenv w) OPENAI_API_KEY)" and "stdin w = []"
  shows "returned (get_openai_api_key w) = None"
    and "raised (get_openai_api_key w) = Some EOFError"
    and "environ (final_world (get_openai_api_key w)) = environ (load_dotenv w)"
  using get_openai_api_key_asks [OF assms(1)] assms(2)
  by (simp_all add: final_world_def returned_def raised_def)

subsection \<open>The key is in the environment\<close>

text \<open>
  C2. When \<^verbatim>\<open>OPENAI_API_KEY\<close> is set to a non-empty value \<open>v\<close> in the environment at
  the call, \<^verbatim>\<open>get_openai_api_key()\<close> returns \<open>v\<close> and \<^verbatim>\<open>getpass\<close> is not called: the list
  of prompt calls is the one before the call, and no input line is consumed.
\<close>

theorem env_key_returned_without_prompt:
  assumes "environ w OPENAI_API_KEY = Some v" and "v \<noteq> []"
  shows "returned (get_openai_api_key w) = Some v
       \<and> raised (get_openai_api_key w) = None
       \<and> getpass_calls (final_world (get_openai_api_key w)) = getpass_calls w
       \<and> stdin (final_world (get_openai_api_key w)) = stdin w"
proof -
  have "environ (load_dotenv w) OPENAI_API_KEY = Some v"
    using assms(1) by (rule load_dotenv_keeps_set)
  then have "get_openai_api_key w = Inr (v, load_dotenv w)"
    using assms(2) by (rule get_openai_api_key_found)
  then show ?thesis
    by (simp add: returned_def raised_def final_world_def)
qed

theorem env_key_returned_without_prompt_witness:
  "environ world_env_key_dotenv OPENAI_API_KEY = Some ''sk-env'' \<and> ''sk-env'' \<noteq> []
   \<and> returned (get_openai_api_key world_env_key_dotenv) = Some ''sk-env''
   \<and> getpass_calls (final_world (get_openai_api_key world_env_key_dotenv)) = []"
  using env_key_returned_without_prompt [of world_env_key_dotenv "''sk-env''"]
  by (simp add: world_env_key_dotenv_def)

subsection \<open>The key is only in the \<^verbatim>\<open>.env\<close> file\<close>




subsection \<open>The key is nowhere\<close>

text \<open>
  C4, as stated: if \<^verbatim>\<open>OPENAI_API_KEY\<close> is absent from the environment and from the
  \<^verbatim>\<open>.env\<close> file, the function invokes the prompt once, returns the string the prompt
  yields and writes it into the environment. In \<open>world_no_key_nul_typed\<close> the prompt
  yields a line with a NUL character: line 23, \<^verbatim>\<open>os.environ["OPENAI_API_KEY"] = api_key\<close>,
  raises \<^verbatim>\<open>ValueError\<close>, so nothing is returned and the variable stays unset.
\<close>

theorem typed_nul_not_returned:
  "environ world_no_key_nul_typed OPENAI_API_KEY = None
   \<and> dotenv_lookup world_no_key_nul_typed OPENAI_API_KEY = None
   \<and> stdin world_no_key_nul_typed = [[CHR ''s'', CHR ''k'', CHR 0x00, CHR ''x'']]
   \<and> getpass_calls (final_world (get_openai_api_key world_no_key_nul_typed)) = [key_prompt]
   \<and> returned (get_openai_api_key world_no_key_nul_typed) = None
   \<and> raised (get_openai_api_key world_no_key_nul_typed)
       = Some (ValueError ''embedded null byte'')
   \<and> environ (final_world (get_openai_api_key world_no_key_nul_typed)) OPENAI_API_KEY
       = None"
  by (simp add: world_no_key_nul_typed_def dotenv_lookup_def get_openai_api_key_def
      load_dotenv_def os_environ_get_def os_environ_set_key has_nul_def getpass_def
      py_print_def returned_def raised_def final_world_def Let_def)

text \<open>
  C4, amended: if \<^verbatim>\<open>OPENAI_API_KEY\<close> is absent from the environment and from the
  \<^verbatim>\<open>.env\<close> file (or there is no file), \<^verbatim>\<open>getpass\<close> is called exactly once, with the key
  prompt. When the prompt yields a line \<open>l\<close> without a NUL character, the function
  returns \<open>l\<close> and the environment variable is \<open>l\<close> afterwards. When the line holds a NUL
  character, the write raises \<^verbatim>\<open>ValueError\<close>; at end of input \<^verbatim>\<open>getpass\<close> raises
  \<^verbatim>\<open>EOFError\<close>; in both cases the exception leaves the function, nothing is returned and
  the environment is the one \<^verbatim>\<open>load_dotenv()\<close> left.
\<close>

theorem no_key_prompts_once:
  assumes "environ w OPENAI_API_KEY = None" and "dotenv_lookup w OPENAI_API_KEY = None"
  shows "getpass_calls (final_world (get_openai_api_key w)) = getpass_calls w @ [key_prompt]
       \<and> (\<forall>l ls. stdin w = l # ls \<and> \<not> has_nul l \<longrightarrow>
            returned (get_openai_api_key w) = Some l
          \<and> raised (get_openai_api_key w) = None
          \<and> environ (final_world (get_openai_api_key w)) OPENAI_API_KEY = Some l)
       \<and> (\<forall>l ls. stdin w = l # ls \<and> has_nul l \<longrightarrow>
            returned (get_openai_api_key w) = None
          \<and> raised (get_openai_api_key w) = Some (ValueError ''embedded null byte'')
          \<and> environ (final_world (get_openai_api_key w)) = environ (load_dotenv w))
       \<and> (stdin w = [] \<longrightarrow>
            returned (get_openai_api_key w) = None
          \<and> raised (get_openai_api_key w) = Some EOFError
          \<and> environ (final_world (get_openai_api_key w)) = environ (load_dotenv w))"
proof -
  have absent: "py_not (environ (load_dotenv w) OPENAI_API_KEY)"
    using assms by (simp add: load_dotenv_environ)
  show ?thesis
    using final_world_asks [OF absent] returned_asks [OF absent] rejected_asks [OF absent]
      eof_asks [OF absent]
    by blast
qed

theorem no_key_prompts_once_witness:
  "environ world_no_key OPENAI_API_KEY = None
   \<and> dotenv_lookup world_no_key OPENAI_API_KEY = None
   \<and> stdin world_no_key = [''sk-typed'']
   \<and> getpass_calls (final_world (get_openai_api_key world_no_key)) = [key_prompt]
   \<and> returned (get_openai_api_key world_no_key) = Some ''sk-typed''
   \<and> environ (final_world (get_openai_api_key world_no_key)) OPENAI_API_KEY
       = Some ''sk-typed''
   \<and> stdin world_no_key_no_input = []
   \<and> raised (get_openai_api_key world_no_key_no_input) = Some EOFError"
proof -
  have typed: "environ world_no_key OPENAI_API_KEY = None"
    "dotenv_lookup world_no_key OPENAI_API_KEY = None"
    "stdin world_no_key = [''sk-typed'']" "\<not> has_nul ''sk-typed''"
    by (simp_all add: world_no_key_def dotenv_lookup_def has_nul_def)
  have eof: "environ world_no_key_no_input OPENAI_API_KEY = None"
    "dotenv_lookup world_no_key_no_input OPENAI_API_KEY = None"
    "stdin world_no_key_no_input = []"
    by (simp_all add: world_no_key_no_input_def dotenv_lookup_def)
  have calls: "getpass_calls world_no_key = []"
    by (simp add: world_no_key_def)
  show ?thesis
    using no_key_prompts_once [OF typed(1,2)] no_key_prompts_once [OF eof(1,2)]
      typed eof calls
    by simp
qed

subsection \<open>The key is set but empty\<close>

text \<open>
  C9. If \<^verbatim>\<open>OPENAI_API_KEY\<close> is set to the empty string in the environment, the function
  treats it as absent: \<^verbatim>\<open>getpass\<close> is called once, and the empty string of the
  environment is never what the call returns. A typed line without a NUL character is
  returned and stored; with a line that holds a NUL character the call ends with the
  \<^verbatim>\<open>ValueError\<close> of the write, and at end of input with the \<^verbatim>\<open>EOFError\<close> of \<^verbatim>\<open>getpass\<close>,
  returning nothing and leaving the variable empty. This holds whatever the \<^verbatim>\<open>.env\<close>
  file binds, since \<^verbatim>\<open>load_dotenv\<close> leaves a variable that is set (even to the empty
  string) alone; so it holds in particular when the file supplies no non-empty value.
\<close>

theorem empty_env_key_prompts:
  assumes "environ w OPENAI_API_KEY = Some []"
  shows "getpass_calls (final_world (get_openai_api_key w)) = getpass_calls w @ [key_prompt]
       \<and> (\<forall>l ls. stdin w = l # ls \<and> \<not> has_nul l \<longrightarrow>
            returned (get_openai_api_key w) = Some l
          \<and> raised (get_openai_api_key w) = None
          \<and> environ (final_world (get_openai_api_key w)) OPENAI_API_KEY = Some l)
       \<and> (\<forall>l ls. stdin w = l # ls \<and> has_nul l \<longrightarrow>
            returned (get_openai_api_key w) = None
          \<and> raised (get_openai_api_key w) = Some (ValueError ''embedded null byte'')
          \<and> environ (final_world (get_openai_api_key w)) OPENAI_API_KEY = Some [])
       \<and> (stdin w = [] \<longrightarrow>
            returned (get_openai_api_key w) = None
          \<and> raised (get_openai_api_key w) = Some EOFError
          \<and> environ (final_world (get_openai_api_key w)) OPENAI_API_KEY = Some [])"
proof -
  have loaded: "environ (load_dotenv w) OPENAI_API_KEY = Some []"
    using assms by (rule load_dotenv_keeps_set)
  then have absent: "py_not (environ (load_dotenv w) OPENAI_API_KEY)"
    by simp
  have typed: "\<forall>l ls. stdin w = l # ls \<and> \<not> has_nul l \<longrightarrow>
            returned (get_openai_api_key w) = Some l
          \<and> raised (get_openai_api_key w) = None
          \<and> environ (final_world (get_openai_api_key w)) OPENAI_API_KEY = Some l"
    using returned_asks [OF absent] by blast
  have nul: "\<forall>l ls. stdin w = l # ls \<and> has_nul l \<longrightarrow>
            returned (get_openai_api_key w) = None
          \<and> raised (get_openai_api_key w) = Some (ValueError ''embedded null byte'')
          \<and> environ (final_world (get_openai_api_key w)) OPENAI_API_KEY = Some []"
    using rejected_asks [OF absent] loaded by auto
  have eof: "stdin w = [] \<longrightarrow>
            returned (get_openai_api_key w) = None
          \<and> raised (get_openai_api_key w) = Some EOFError
          \<and> environ (final_world (get_openai_api_key w)) OPENAI_API_KEY = Some []"
    using eof_asks [OF absent] loaded by auto
  show ?thesis
    using final_world_asks [OF absent] typed nul eof by blast
qed

theorem empty_env_key_prompts_witness:
  "environ world_empty_env_key OPENAI_API_KEY = Some []
   \<and> stdin world_empty_env_key = [''sk-typed'']
   \<and> getpass_calls (final_world (get_openai_api_key world_empty_env_key)) = [key_prompt]
   \<and> returned (get_openai_api_key world_empty_env_key) = Some ''sk-typed''
   \<and> environ (final_world (get_openai_api_key world_empty_env_key)) OPENAI_API_KEY
       = Some ''sk-typed''
   \<and> environ world_empty_env_key_no_input OPENAI_API_KEY = Some []
   \<and> stdin world_empty_env_key_no_input = []
   \<and> returned (get_openai_api_key world_empty_env_key_no_input) = None
   \<and> raised (get_openai_api_key world_empty_env_key_no_input) = Some EOFError
   \<and> environ world_empty_env_key_nul_typed OPENAI_API_KEY = Some []
   \<and> returned (get_openai_api_key world_empty_env_key_nul_typed) = None
   \<and> raised (get_openai_api_key world_empty_env_key_nul_typed)
       = Some (ValueError ''embedded null byte'')"
proof -
  have typed: "environ world_empty_env_key OPENAI_API_KEY = Some []"
    "stdin world_empty_env_key = [''sk-typed'']" "\<not> has_nul ''sk-typed''"
    "getpass_calls world_empty_env_key = []"
    by (simp_all add: world_empty_env_key_def has_nul_def)
  have eof: "environ world_empty_env_key_no_input OPENAI_API_KEY = Some []"
    "stdin world_empty_env_key_no_input = []"
    by (simp_all add: world_empty_env_key_no_input_def)
  have nul: "environ world_empty_env_key_nul_typed OPENAI_API_KEY = Some []"
    "stdin world_empty_env_key_nul_typed = [[CHR ''s'', CHR ''k'', CHR 0x00, CHR ''x'']]"
    "has_nul [CHR ''s'', CHR ''k'', CHR 0x00, CHR ''x'']"
    by (simp_all add: world_empty_env_key_nul_typed_def has_nul_def)
  show ?thesis
    using empty_env_key_prompts [OF typed(1)] empty_env_key_prompts [OF eof(1)]
      empty_env_key_prompts [OF nul(1)] typed eof nul
    by simp
qed

subsection \<open>What the function writes\<close>

text \<open>
  C10. With \<^verbatim>\<open>OPENAI_API_KEY\<close> set to a non-empty value and no \<^verbatim>\<open>.env\<close> file, the call
  leaves the whole process state, so the whole environment, as it was. The function's
  own write is on the prompt branch only: whenever \<^verbatim>\<open>getpass\<close> has not been called, the
  environment after the call is the one \<^verbatim>\<open>load_dotenv()\<close> left, which without a file is
  the initial one.
\<close>

theorem environment_unchanged_without_prompt:
  "(environ w OPENAI_API_KEY = Some v \<and> v \<noteq> [] \<and> dotenv_file w = None \<longrightarrow>
      final_world (get_openai_api_key w) = w)
   \<and> (getpass_calls (final_world (get_openai_api_key w)) = getpass_calls w \<longrightarrow>
      environ (final_world (get_openai_api_key w)) = environ (load_dotenv w))"
proof (intro conjI impI)
  assume "environ w OPENAI_API_KEY = Some v \<and> v \<noteq> [] \<and> dotenv_file w = None"
  then show "final_world (get_openai_api_key w) = w"
    by (simp add: get_openai_api_key_found load_dotenv_no_file final_world_def)
next
  assume same: "getpass_calls (final_world (get_openai_api_key w)) = getpass_calls w"
  show "environ (final_world (get_openai_api_key w)) = environ (load_dotenv w)"
  proof (cases "py_not (environ (load_dotenv w) OPENAI_API_KEY)")
    case True
    from final_world_asks [OF True] same show ?thesis by simp
  next
    case False
    then obtain v' where "environ (load_dotenv w) OPENAI_API_KEY = Some v'" and "v' \<noteq> []"
      by (cases "environ (load_dotenv w) OPENAI_API_KEY") auto
    then show ?thesis
      by (simp add: get_openai_api_key_found final_world_def)
  qed
qed

theorem environment_unchanged_without_prompt_witness:
  "environ world_env_key OPENAI_API_KEY = Some ''sk-env'' \<and> ''sk-env'' \<noteq> []
   \<and> dotenv_file world_env_key = None
   \<and> final_world (get_openai_api_key world_env_key) = world_env_key
   \<and> getpass_calls (final_world (get_openai_api_key world_env_key))
       = getpass_calls world_env_key
   \<and> environ (final_world (get_openai_api_key world_env_key))
       = environ (load_dotenv world_env_key)"
proof -
  have h: "environ world_env_key OPENAI_API_KEY = Some ''sk-env'' \<and> ''sk-env'' \<noteq> []
      \<and> dotenv_file world_env_key = None"
    by (simp add: world_env_key_def)
  with environment_unchanged_without_prompt [of world_env_key "''sk-env''"]
  have "final_world (get_openai_api_key world_env_key) = world_env_key" by blast
  then show ?thesis using h by (simp add: load_dotenv_no_file)
qed

section \<open>The resolver against the specification's algorithm\<close>







text \<open>
  Two more inputs on which the source and the algorithm of the specification part, this
  time in what they return. With the variable set to the empty string the algorithm
  finds it present and returns it without prompting, where the source prompts; and a
  typed line with a NUL character is returned by the algorithm, which knows no failing
  store, where the source raises \<^verbatim>\<open>ValueError\<close>.
\<close>

lemma spec_algorithm_returns_empty_value:
  "returned (get_api_key_spec world_empty_env_key) = Some []
   \<and> getpass_calls (final_world (get_api_key_spec world_empty_env_key)) = []
   \<and> returned (get_openai_api_key world_empty_env_key) = Some ''sk-typed''
   \<and> getpass_calls (final_world (get_openai_api_key world_empty_env_key)) = [key_prompt]"
  by (simp add: world_empty_env_key_def get_api_key_spec_def get_openai_api_key_def
      cache_and_return_def load_dotenv_def os_environ_get_def os_environ_set_key has_nul_def
      getpass_def py_print_def returned_def final_world_def Let_def)

lemma spec_algorithm_returns_nul_line:
  "returned (get_api_key_spec world_no_key_nul_typed)
     = Some [CHR ''s'', CHR ''k'', CHR 0x00, CHR ''x'']
   \<and> returned (get_openai_api_key world_no_key_nul_typed) = None
   \<and> raised (get_openai_api_key world_no_key_nul_typed)
       = Some (ValueError ''embedded null byte'')"
  by (simp add: world_no_key_nul_typed_def get_api_key_spec_def get_openai_api_key_def
      cache_and_return_def load_dotenv_def os_environ_get_def os_environ_set_key has_nul_def
      getpass_def py_print_def returned_def raised_def Let_def)



section \<open>Properties of the pipeline definition\<close>

subsection \<open>Task dependencies\<close>

lemma context_smaller: "u \<in> set (task_context t) \<Longrightarrow> size u < size t"
  by (cases t) (auto simp: less_Suc_eq_le intro: size_list_estimation')

lemma upstream_smaller: "u \<in> set (upstream_closure t) \<Longrightarrow> size u < size t"
proof (induction t arbitrary: u rule: upstream_closure.induct)
  case (1 n d e a ctx)
  from "1.prems" obtain c where c: "c \<in> set ctx"
    and u: "u = c \<or> u \<in> set (upstream_closure c)"
    by auto
  have "size c < size (Task n d e a ctx)"
    using c by (intro context_smaller) simp
  moreover have "size u \<le> size c"
    using u "1.IH" [OF c] by (auto simp: less_imp_le)
  ultimately show ?case by simp
qed

lemma no_task_upstream_of_itself: "t \<notin> set (upstream_closure t)"
  using upstream_smaller [of t t] by auto

lemma tasks_differ:
  "plan \<noteq> write_task" "plan \<noteq> edit" "write_task \<noteq> edit"
proof -
  have "name plan \<noteq> name write_task" "name plan \<noteq> name edit"
    "name write_task \<noteq> name edit"
    by (simp_all add: plan_def write_task_def edit_def)
  then show "plan \<noteq> write_task" "plan \<noteq> edit" "write_task \<noteq> edit"
    by auto
qed

lemma agents_differ:
  "planner \<noteq> writer" "planner \<noteq> editor" "writer \<noteq> editor"
proof -
  have "role planner \<noteq> role writer" "role planner \<noteq> role editor"
    "role writer \<noteq> role editor"
    by (simp_all add: planner_def writer_def editor_def)
  then show "planner \<noteq> writer" "planner \<noteq> editor" "writer \<noteq> editor"
    by auto
qed

text \<open>
  C1. The dependency chain is linear: \<^verbatim>\<open>plan\<close> has no upstream task, the upstream set of
  \<^verbatim>\<open>write\<close> is exactly \<open>{plan}\<close> and that of \<^verbatim>\<open>edit\<close> is exactly \<open>{write}\<close>. Followed
  transitively, \<^verbatim>\<open>edit\<close> depends on \<^verbatim>\<open>write\<close> and \<^verbatim>\<open>plan\<close>, \<^verbatim>\<open>write\<close> on \<^verbatim>\<open>plan\<close>, \<^verbatim>\<open>plan\<close> on
  nothing; none of the three is among its own upstream tasks, and no task built this
  way ever is, so there is no cycle.
\<close>

theorem task_dependencies_linear:
  "task_context plan = []
   \<and> set (task_context write_task) = {plan}
   \<and> set (task_context edit) = {write_task}
   \<and> upstream_closure plan = []
   \<and> upstream_closure write_task = [plan]
   \<and> upstream_closure edit = [write_task, plan]
   \<and> plan \<notin> set (upstream_closure plan)
   \<and> write_task \<notin> set (upstream_closure write_task)
   \<and> edit \<notin> set (upstream_closure edit)
   \<and> (\<forall>t. t \<notin> set (upstream_closure t))"
proof -
  have ctx: "task_context plan = []" "task_context write_task = [plan]"
    "task_context edit = [write_task]"
    by (simp_all add: plan_def write_task_def edit_def)
  have p: "upstream_closure plan = []"
    by (simp add: plan_def)
  have w: "upstream_closure write_task = [plan]"
    using p by (simp add: write_task_def)
  have e: "upstream_closure edit = [write_task, plan]"
    using w by (simp add: edit_def)
  show ?thesis
    using ctx p w e no_task_upstream_of_itself tasks_differ by simp
qed

subsection \<open>Worker descriptors\<close>

lemma goal_placeholders:
  "placeholders (goal planner) = [''topic'']"
  "placeholders (goal writer) = [''topic'']"
  "placeholders (goal editor) = []"
  "placeholders (backstory editor) = [''topic'']"
  by (simp_all add: planner_def writer_def editor_def)

text \<open>
  C6, as stated: each of the three workers has \<^verbatim>\<open>allow_delegation=False\<close> and a goal
  with exactly one placeholder, \<^verbatim>\<open>{topic}\<close>. The goal of \<^verbatim>\<open>editor\<close> (line 47 of
  \<^verbatim>\<open>agents.py\<close>) has no placeholder at all.
\<close>

theorem editor_goal_has_no_placeholder:
  "placeholders (goal editor) = [] \<and> length (placeholders (goal editor)) \<noteq> 1
   \<and> placeholders (goal editor) \<noteq> [''topic'']"
  by (simp add: goal_placeholders)

text \<open>
  C6, amended: each of the three workers has \<^verbatim>\<open>allow_delegation=False\<close>; the goals of
  \<^verbatim>\<open>planner\<close> and \<^verbatim>\<open>writer\<close> contain exactly one placeholder, \<^verbatim>\<open>{topic}\<close>; the goal of
  \<^verbatim>\<open>editor\<close> contains none, and its \<^verbatim>\<open>{topic}\<close> placeholder is in its backstory.
\<close>

theorem workers_delegation_and_placeholders:
  "allow_delegation planner = False \<and> allow_delegation writer = False
   \<and> allow_delegation editor = False
   \<and> placeholders (goal planner) = [''topic'']
   \<and> placeholders (goal writer) = [''topic'']
   \<and> placeholders (goal editor) = []
   \<and> placeholders (backstory editor) = [''topic'']"
proof -
  have "allow_delegation planner = False" "allow_delegation writer = False"
    "allow_delegation editor = False"
    by (simp_all add: planner_def writer_def editor_def)
  then show ?thesis by (simp add: goal_placeholders)
qed

subsection \<open>The script: errors and submission\<close>

lemma returned_Inr: "returned r = Some x \<Longrightarrow> r = Inr (x, final_world r)"
  by (auto simp: returned_def final_world_def split: sum.splits prod.splits)

lemma raised_Inl: "raised r = Some e \<Longrightarrow> r = Inl (e, final_world r)"
  by (auto simp: raised_def final_world_def split: sum.splits prod.splits)

lemma completed_Inr: "raised r = None \<Longrightarrow> r = Inr ((), final_world r)"
  by (auto simp: raised_def final_world_def split: sum.splits prod.splits)

lemma run_steps_append:
  "run_steps (ss @ ss') w =
     (case run_steps ss w of
        Inl (e, w') \<Rightarrow> Inl (e, w')
      | Inr (_, w') \<Rightarrow> run_steps ss' w')"
  by (induction ss arbitrary: w) (auto split: sum.splits)

lemma run_steps_fails_at:
  assumes "run_steps ss w = Inr ((), w')" and "s w' = Inl (e, w'')"
  shows "run_steps (ss @ s # ss') w = Inl (e, w'')"
  using assms by (simp add: run_steps_append)

lemma assemble_library_missing:
  assumes "import_crewai lib w = Inl (e, w')"
  shows "assemble ok lib w = Inl (e, w')"
  using assms by (simp add: assemble_def)

lemma assemble_resolver_fails:
  assumes "import_crewai lib w = Inr ((), w1)"
    and "import_get_openai_api_key ok w1 = Inl (e, w')"
  shows "assemble ok lib w = Inl (e, w')"
  using assms by (simp add: assemble_def)

lemma assemble_step_fails:
  assumes "import_crewai lib w = Inr ((), w1)"
    and "import_get_openai_api_key ok w1 = Inr (k, w2)"
    and "construction_steps lib k = ss @ s # ss'"
    and "run_steps ss w2 = Inr ((), w3)" and "s w3 = Inl (e, w4)"
  shows "assemble ok lib w = Inl (e, w4)"
  using assms by (simp add: assemble_def run_steps_append)

lemma assemble_completes:
  assumes "import_crewai lib w = Inr ((), w1)"
    and "import_get_openai_api_key ok w1 = Inr (k, w2)"
    and "run_steps (construction_steps lib k) w2 = Inr ((), w3)"
  shows "assemble ok lib w = Inr (crew, w3)"
  using assms by (simp add: assemble_def)

lemma assemble_crew:
  assumes "assemble ok lib w = Inr (c, w')"
  shows "c = crew"
  using assms
  by (auto simp: assemble_def split: sum.splits prod.splits)

lemma agents_script_fails:
  assumes "assemble ok lib w = Inl (e, w')"
  shows "agents_script ok lib topic w = Inl (e, w')"
  using assms by (simp add: agents_script_def)

lemma agents_script_submits:
  assumes "assemble ok lib w = Inr (c, w')"
  shows "agents_script ok lib topic w = kickoff lib crew [''topic'' \<mapsto> topic] w'"
  using assms assemble_crew [OF assms] by (simp add: agents_script_def)

lemma get_openai_api_key_raises:
  assumes "raised (get_openai_api_key w) = Some e"
  shows "py_not (environ (load_dotenv w) OPENAI_API_KEY)
       \<and> (raised (getpass key_prompt (py_print key_missing_message (load_dotenv w))) = Some e
          \<or> (\<exists>typed w'.
               getpass key_prompt (py_print key_missing_message (load_dotenv w))
                 = Inr (typed, w')
             \<and> raised (os_environ_set OPENAI_API_KEY typed w') = Some e))"
  using assms
  by (auto simp: get_openai_api_key_def os_environ_get_def Let_def raised_def
      split: if_splits sum.splits prod.splits option.splits)

lemma get_openai_api_key_getpass_raises:
  assumes "py_not (environ (load_dotenv w) OPENAI_API_KEY)"
    and "getpass key_prompt (py_print key_missing_message (load_dotenv w)) = Inl (e, w')"
  shows "get_openai_api_key w = Inl (e, w')"
  using assms by (simp add: get_openai_api_key_def os_environ_get_def Let_def)

lemma get_openai_api_key_store_raises:
  assumes "py_not (environ (load_dotenv w) OPENAI_API_KEY)"
    and "getpass key_prompt (py_print key_missing_message (load_dotenv w)) = Inr (typed, w')"
    and "os_environ_set OPENAI_API_KEY typed w' = Inl (e, w'')"
  shows "get_openai_api_key w = Inl (e, w'')"
  using assms by (simp add: get_openai_api_key_def os_environ_get_def Let_def)

text \<open>The example libraries, call by call.\<close>

lemma stub_library_calls [simp]:
  "import_crewai stub_library w = Inr ((), w)"
  "Agent_init stub_library a w = Inr ((), w)"
  "Task_init stub_library t w = Inr ((), w)"
  "Crew_init stub_library c w = Inr ((), w)"
  by (simp_all add: stub_library_def)

lemma stub_library_kickoff:
  "kickoff stub_library c [''topic'' \<mapsto> t] w = Inr (''Article about '' @ t, w)"
  by (simp add: stub_library_def)

lemma failing_library_calls [simp]:
  "import_crewai failing_library w = Inr ((), w)"
  "Agent_init failing_library a w = Inr ((), w)"
  "Task_init failing_library t w = Inr ((), w)"
  "Crew_init failing_library c w = Inr ((), w)"
  "kickoff failing_library c inputs w = Inl (LibraryError ''connection refused'', w)"
  by (simp_all add: failing_library_def stub_library_def)

lemma strict_library_calls [simp]:
  "import_crewai strict_library w = Inr ((), w)"
  "Agent_init strict_library a w =
     (if py_not (environ w OPENAI_API_KEY) then Inl (LibraryError ''no API key'', w)
      else Inr ((), w))"
  by (simp_all add: strict_library_def stub_library_def)

lemma missing_library_calls [simp]:
  "import_crewai missing_library w = Inl (ImportError ''No module named crewai'', w)"
  by (simp add: missing_library_def stub_library_def)

text \<open>The resolver and the statements after it on the example states.\<close>

lemma resolver_world_env_key:
  "get_openai_api_key world_env_key = Inr (''sk-env'', world_env_key)"
  by (simp add: get_openai_api_key_def world_env_key_def load_dotenv_def os_environ_get_def
      Let_def)

lemma resolver_world_no_key_no_input:
  "raised (get_openai_api_key world_no_key_no_input) = Some EOFError"
  by (simp add: get_openai_api_key_def world_no_key_no_input_def load_dotenv_def
      os_environ_get_def getpass_def py_print_def raised_def Let_def)

lemma resolver_world_no_key_nul_typed:
  "raised (get_openai_api_key world_no_key_nul_typed)
     = Some (ValueError ''embedded null byte'')"
  by (simp add: get_openai_api_key_def world_no_key_nul_typed_def load_dotenv_def
      os_environ_get_def os_environ_set_key has_nul_def getpass_def py_print_def raised_def
      Let_def)

lemma resolver_world_no_key_empty_typed:
  "returned (get_openai_api_key world_no_key_empty_typed) = Some []"
  "environ (final_world (get_openai_api_key world_no_key_empty_typed)) OPENAI_API_KEY
     = Some []"
  by (simp_all add: get_openai_api_key_def world_no_key_empty_typed_def load_dotenv_def
      os_environ_get_def os_environ_set_key has_nul_def getpass_def py_print_def
      returned_def final_world_def Let_def)

lemma steps_complete_world_env_key:
  "raised (run_steps (construction_steps stub_library ''sk-env'') world_env_key) = None"
  "raised (run_steps (construction_steps failing_library ''sk-env'') world_env_key) = None"
  by (simp_all add: construction_steps_def os_environ_set_key os_environ_set_model_name
      has_nul_def raised_def)

lemma writes_keep_empty_key:
  assumes "environ w OPENAI_API_KEY = Some []"
  shows "raised (run_steps [os_environ_set OPENAI_API_KEY [],
                            os_environ_set OPENAI_MODEL_NAME ''gpt-4''] w) = None"
    and "py_not (environ (final_world
           (run_steps [os_environ_set OPENAI_API_KEY [],
                       os_environ_set OPENAI_MODEL_NAME ''gpt-4''] w)) OPENAI_API_KEY)"
  using assms
  by (simp_all add: os_environ_set_def has_nul_def raised_def final_world_def
      OPENAI_API_KEY_def OPENAI_MODEL_NAME_def)

text \<open>
  C7. The one error raised by the repository's own code is the \<^verbatim>\<open>ImportError\<close> of the
  fallback \<^verbatim>\<open>get_openai_api_key()\<close>: calling it raises that error, and when \<^verbatim>\<open>utils\<close> cannot
  be imported the script ends with it. Nothing else is raised or handled locally. In
  \<^verbatim>\<open>utils.get_openai_api_key()\<close> an exception of \<^verbatim>\<open>getpass\<close> and an exception of the write
  to \<^verbatim>\<open>os.environ\<close> leave the function as they are, and the function raises nothing else.
  In the script, a failing import of the library, an exception of the resolver, and an
  exception of any of the statements of lines 13 to 86 end the script with that same
  exception and state; and when all of them complete, the outcome of the script is the
  outcome of \<^verbatim>\<open>kickoff\<close>, its exceptions included, unchanged.
\<close>

theorem only_import_error_raised_locally:
  "import_get_openai_api_key False w = Inl (ImportError import_error_message, w)
   \<and> (\<forall>w1. import_crewai lib w = Inr ((), w1) \<longrightarrow>
         agents_script False lib topic w = Inl (ImportError import_error_message, w1))
   \<and> (\<forall>e w'. py_not (environ (load_dotenv w) OPENAI_API_KEY)
         \<and> getpass key_prompt (py_print key_missing_message (load_dotenv w)) = Inl (e, w')
         \<longrightarrow> get_openai_api_key w = Inl (e, w'))
   \<and> (\<forall>typed w' e w''. py_not (environ (load_dotenv w) OPENAI_API_KEY)
         \<and> getpass key_prompt (py_print key_missing_message (load_dotenv w))
             = Inr (typed, w')
         \<and> os_environ_set OPENAI_API_KEY typed w' = Inl (e, w'')
         \<longrightarrow> get_openai_api_key w = Inl (e, w''))
   \<and> (\<forall>e. raised (get_openai_api_key w) = Some e \<longrightarrow>
         py_not (environ (load_dotenv w) OPENAI_API_KEY)
         \<and> (raised (getpass key_prompt (py_print key_missing_message (load_dotenv w)))
               = Some e
            \<or> (\<exists>typed w'.
                 getpass key_prompt (py_print key_missing_message (load_dotenv w))
                   = Inr (typed, w')
               \<and> raised (os_environ_set OPENAI_API_KEY typed w') = Some e)))
   \<and> (\<forall>e w'. import_crewai lib w = Inl (e, w') \<longrightarrow>
         agents_script ok lib topic w = Inl (e, w'))
   \<and> (\<forall>w1 e w'. import_crewai lib w = Inr ((), w1)
         \<and> import_get_openai_api_key ok w1 = Inl (e, w')
         \<longrightarrow> agents_script ok lib topic w = Inl (e, w'))
   \<and> (\<forall>w1 k w2 ss s ss' w3 e w4. import_crewai lib w = Inr ((), w1)
         \<and> import_get_openai_api_key ok w1 = Inr (k, w2)
         \<and> construction_steps lib k = ss @ s # ss'
         \<and> run_steps ss w2 = Inr ((), w3) \<and> s w3 = Inl (e, w4)
         \<longrightarrow> agents_script ok lib topic w = Inl (e, w4))
   \<and> (\<forall>w1 k w2 w3. import_crewai lib w = Inr ((), w1)
         \<and> import_get_openai_api_key ok w1 = Inr (k, w2)
         \<and> run_steps (construction_steps lib k) w2 = Inr ((), w3)
         \<longrightarrow> agents_script ok lib topic w = kickoff lib crew [''topic'' \<mapsto> topic] w3)"
proof (intro conjI allI impI)
  show "import_get_openai_api_key False w = Inl (ImportError import_error_message, w)"
    by (simp add: import_get_openai_api_key_def fallback_get_openai_api_key_def)
next
  fix w1 assume "import_crewai lib w = Inr ((), w1)"
  moreover have "import_get_openai_api_key False w1
      = Inl (ImportError import_error_message, w1)"
    by (simp add: import_get_openai_api_key_def fallback_get_openai_api_key_def)
  ultimately show "agents_script False lib topic w
      = Inl (ImportError import_error_message, w1)"
    by (intro agents_script_fails assemble_resolver_fails)
next
  fix e w'
  assume "py_not (environ (load_dotenv w) OPENAI_API_KEY)
    \<and> getpass key_prompt (py_print key_missing_message (load_dotenv w)) = Inl (e, w')"
  then show "get_openai_api_key w = Inl (e, w')"
    by (intro get_openai_api_key_getpass_raises) simp_all
next
  fix typed w' e w''
  assume "py_not (environ (load_dotenv w) OPENAI_API_KEY)
    \<and> getpass key_prompt (py_print key_missing_message (load_dotenv w)) = Inr (typed, w')
    \<and> os_environ_set OPENAI_API_KEY typed w' = Inl (e, w'')"
  then show "get_openai_api_key w = Inl (e, w'')"
    using get_openai_api_key_store_raises by blast
next
  fix e assume "raised (get_openai_api_key w) = Some e"
  from get_openai_api_key_raises [OF this]
  show "py_not (environ (load_dotenv w) OPENAI_API_KEY)"
    and "raised (getpass key_prompt (py_print key_missing_message (load_dotenv w))) = Some e
       \<or> (\<exists>typed w'.
            getpass key_prompt (py_print key_missing_message (load_dotenv w))
              = Inr (typed, w')
          \<and> raised (os_environ_set OPENAI_API_KEY typed w') = Some e)"
    by blast+
next
  fix e w' assume "import_crewai lib w = Inl (e, w')"
  then show "agents_script ok lib topic w = Inl (e, w')"
    by (intro agents_script_fails assemble_library_missing)
next
  fix w1 e w'
  assume "import_crewai lib w = Inr ((), w1)
    \<and> import_get_openai_api_key ok w1 = Inl (e, w')"
  then show "agents_script ok lib topic w = Inl (e, w')"
    using assemble_resolver_fails agents_script_fails by blast
next
  fix w1 k w2 ss s ss' w3 e w4
  assume "import_crewai lib w = Inr ((), w1)
    \<and> import_get_openai_api_key ok w1 = Inr (k, w2)
    \<and> construction_steps lib k = ss @ s # ss'
    \<and> run_steps ss w2 = Inr ((), w3) \<and> s w3 = Inl (e, w4)"
  then have "assemble ok lib w = Inl (e, w4)"
    using assemble_step_fails by blast
  then show "agents_script ok lib topic w = Inl (e, w4)"
    by (rule agents_script_fails)
next
  fix w1 k w2 w3
  assume "import_crewai lib w = Inr ((), w1)
    \<and> import_get_openai_api_key ok w1 = Inr (k, w2)
    \<and> run_steps (construction_steps lib k) w2 = Inr ((), w3)"
  then have "assemble ok lib w = Inr (crew, w3)"
    using assemble_completes by blast
  then show "agents_script ok lib topic w = kickoff lib crew [''topic'' \<mapsto> topic] w3"
    by (rule agents_script_submits)
qed

theorem only_import_error_raised_locally_witness:
  "raised (agents_script False stub_library ''AI'' world_env_key)
     = Some (ImportError import_error_message)
   \<and> raised (get_openai_api_key world_no_key_no_input) = Some EOFError
   \<and> raised (get_openai_api_key world_no_key_nul_typed)
       = Some (ValueError ''embedded null byte'')
   \<and> raised (agents_script True missing_library ''AI'' world_env_key)
       = Some (ImportError ''No module named crewai'')
   \<and> raised (agents_script True stub_library ''AI'' world_no_key_no_input) = Some EOFError
   \<and> raised (agents_script True strict_library ''AI'' world_no_key_empty_typed)
       = Some (LibraryError ''no API key'')
   \<and> raised (agents_script True failing_library ''AI'' world_env_key)
       = Some (LibraryError ''connection refused'')"
proof -
  \<comment> \<open>the fallback\<close>
  note fallback = only_import_error_raised_locally
    [where lib = stub_library and w = world_env_key and topic = "''AI''" and ok = True,
      THEN conjunct2, THEN conjunct1, rule_format]
  have "agents_script False stub_library ''AI'' world_env_key
      = Inl (ImportError import_error_message, world_env_key)"
    by (rule fallback) simp
  then have 1: "raised (agents_script False stub_library ''AI'' world_env_key)
      = Some (ImportError import_error_message)"
    by (simp add: raised_def)
  \<comment> \<open>\<^verbatim>\<open>getpass\<close> raises at end of input\<close>
  note getpass_raises = only_import_error_raised_locally
    [where lib = stub_library and w = world_no_key_no_input and topic = "''AI''"
      and ok = True,
      THEN conjunct2, THEN conjunct2, THEN conjunct1, rule_format]
  have eof_absent: "py_not (environ (load_dotenv world_no_key_no_input) OPENAI_API_KEY)"
    by (simp add: world_no_key_no_input_def load_dotenv_def)
  have eof_getpass:
    "getpass key_prompt (py_print key_missing_message (load_dotenv world_no_key_no_input))
       = Inl (EOFError, asked world_no_key_no_input)"
    by (simp add: getpass_asked) (simp add: world_no_key_no_input_def)
  have eof: "get_openai_api_key world_no_key_no_input
      = Inl (EOFError, asked world_no_key_no_input)"
    by (rule getpass_raises, (rule conjI eof_absent eof_getpass)+)
  then have 2: "raised (get_openai_api_key world_no_key_no_input) = Some EOFError"
    by (simp add: raised_def)
  \<comment> \<open>the write raises on a NUL character\<close>
  note store_raises = only_import_error_raised_locally
    [where lib = stub_library and w = world_no_key_nul_typed and topic = "''AI''"
      and ok = True,
      THEN conjunct2, THEN conjunct2, THEN conjunct2, THEN conjunct1, rule_format]
  let ?nul = "[CHR ''s'', CHR ''k'', CHR 0x00, CHR ''x'']"
  let ?wn = "(asked world_no_key_nul_typed)\<lparr>stdin := []\<rparr>"
  have nul_absent: "py_not (environ (load_dotenv world_no_key_nul_typed) OPENAI_API_KEY)"
    by (simp add: world_no_key_nul_typed_def load_dotenv_def)
  have nul_getpass:
    "getpass key_prompt (py_print key_missing_message (load_dotenv world_no_key_nul_typed))
       = Inr (?nul, ?wn)"
    by (simp add: getpass_asked) (simp add: world_no_key_nul_typed_def)
  have nul_store: "os_environ_set OPENAI_API_KEY ?nul ?wn
      = Inl (ValueError ''embedded null byte'', ?wn)"
    by (simp add: os_environ_set_key has_nul_def)
  have "get_openai_api_key world_no_key_nul_typed
      = Inl (ValueError ''embedded null byte'', ?wn)"
    by (rule store_raises, (rule conjI nul_absent nul_getpass nul_store)+)
  then have 3: "raised (get_openai_api_key world_no_key_nul_typed)
      = Some (ValueError ''embedded null byte'')"
    by (simp add: raised_def)
  \<comment> \<open>the library cannot be imported\<close>
  note library_missing = only_import_error_raised_locally
    [where lib = missing_library and w = world_env_key and topic = "''AI''" and ok = True,
      THEN conjunct2, THEN conjunct2, THEN conjunct2, THEN conjunct2, THEN conjunct2,
      THEN conjunct1, rule_format]
  have "agents_script True missing_library ''AI'' world_env_key
      = Inl (ImportError ''No module named crewai'', world_env_key)"
    by (rule library_missing) simp
  then have 4: "raised (agents_script True missing_library ''AI'' world_env_key)
      = Some (ImportError ''No module named crewai'')"
    by (simp add: raised_def)
  \<comment> \<open>the resolver raises\<close>
  note resolver_raises = only_import_error_raised_locally
    [where lib = stub_library and w = world_no_key_no_input and topic = "''AI''"
      and ok = True,
      THEN conjunct2, THEN conjunct2, THEN conjunct2, THEN conjunct2, THEN conjunct2,
      THEN conjunct2, THEN conjunct1, rule_format]
  have r1: "import_crewai stub_library world_no_key_no_input
      = Inr ((), world_no_key_no_input)"
    by simp
  have r2: "import_get_openai_api_key True world_no_key_no_input
      = Inl (EOFError, asked world_no_key_no_input)"
    using eof by (simp add: import_get_openai_api_key_def)
  have "agents_script True stub_library ''AI'' world_no_key_no_input
      = Inl (EOFError, asked world_no_key_no_input)"
    by (rule resolver_raises, (rule conjI r1 r2)+)
  then have 5: "raised (agents_script True stub_library ''AI'' world_no_key_no_input)
      = Some EOFError"
    by (simp add: raised_def)
  \<comment> \<open>a constructor raises\<close>
  note step_raises = only_import_error_raised_locally
    [where lib = strict_library and w = world_no_key_empty_typed and topic = "''AI''"
      and ok = True,
      THEN conjunct2, THEN conjunct2, THEN conjunct2, THEN conjunct2, THEN conjunct2,
      THEN conjunct2, THEN conjunct2, THEN conjunct1, rule_format]
  let ?w2 = "final_world (get_openai_api_key world_no_key_empty_typed)"
  let ?writes = "[os_environ_set OPENAI_API_KEY [],
                  os_environ_set OPENAI_MODEL_NAME ''gpt-4'']"
  let ?rest = "[Agent_init strict_library writer, Agent_init strict_library editor,
                Task_init strict_library plan, Task_init strict_library write_task,
                Task_init strict_library edit, Crew_init strict_library crew]"
  let ?w3 = "final_world (run_steps ?writes ?w2)"
  have s1: "import_crewai strict_library world_no_key_empty_typed
      = Inr ((), world_no_key_empty_typed)"
    by simp
  have s2: "import_get_openai_api_key True world_no_key_empty_typed = Inr ([], ?w2)"
    using returned_Inr [OF resolver_world_no_key_empty_typed(1)]
    by (simp add: import_get_openai_api_key_def)
  have s3: "construction_steps strict_library []
      = ?writes @ Agent_init strict_library planner # ?rest"
    by (simp add: construction_steps_def)
  have s4: "run_steps ?writes ?w2 = Inr ((), ?w3)"
    using writes_keep_empty_key(1) [OF resolver_world_no_key_empty_typed(2)]
    by (rule completed_Inr)
  have s5: "Agent_init strict_library planner ?w3 = Inl (LibraryError ''no API key'', ?w3)"
    using writes_keep_empty_key(2) [OF resolver_world_no_key_empty_typed(2)]
    by simp
  have "agents_script True strict_library ''AI'' world_no_key_empty_typed
      = Inl (LibraryError ''no API key'', ?w3)"
    by (rule step_raises [OF conjI [OF s1 conjI [OF s2 conjI [OF s3 conjI [OF s4 s5]]]]])
  then have 6: "raised (agents_script True strict_library ''AI'' world_no_key_empty_typed)
      = Some (LibraryError ''no API key'')"
    by (simp add: raised_def)
  \<comment> \<open>\<^verbatim>\<open>kickoff\<close> raises\<close>
  note kickoff_raises = only_import_error_raised_locally
    [where lib = failing_library and w = world_env_key and topic = "''AI''" and ok = True,
      THEN conjunct2, THEN conjunct2, THEN conjunct2, THEN conjunct2, THEN conjunct2,
      THEN conjunct2, THEN conjunct2, THEN conjunct2, rule_format]
  let ?w9 = "final_world (run_steps (construction_steps failing_library ''sk-env'')
               world_env_key)"
  have k1: "import_crewai failing_library world_env_key = Inr ((), world_env_key)"
    by simp
  have k2: "import_get_openai_api_key True world_env_key = Inr (''sk-env'', world_env_key)"
    by (simp add: import_get_openai_api_key_def resolver_world_env_key)
  have k3: "run_steps (construction_steps failing_library ''sk-env'') world_env_key
      = Inr ((), ?w9)"
    using steps_complete_world_env_key(2) by (rule completed_Inr)
  have "agents_script True failing_library ''AI'' world_env_key
      = kickoff failing_library crew [''topic'' \<mapsto> ''AI''] ?w9"
    by (rule kickoff_raises [OF conjI [OF k1 conjI [OF k2 k3]]])
  then have 7: "raised (agents_script True failing_library ''AI'' world_env_key)
      = Some (LibraryError ''connection refused'')"
    by (simp add: raised_def)
  show ?thesis
    by (intro conjI 1 2 3 4 5 6 7)
qed

text \<open>
  C8. The crew holds exactly the three workers \<^verbatim>\<open>planner\<close>, \<^verbatim>\<open>writer\<close>, \<^verbatim>\<open>editor\<close> and exactly
  the three tasks \<^verbatim>\<open>plan\<close>, \<^verbatim>\<open>write\<close>, \<^verbatim>\<open>edit\<close>, in that order and pairwise different. What is
  built before line 88 does not take the topic at all. For every topic, when lines 4 to
  86 complete, what the script submits to \<^verbatim>\<open>kickoff\<close> is that crew, with the topic in the
  inputs only; when one of them raises, the script ends with that exception and submits
  nothing. The script as written is the instance with the topic of its last line.
\<close>

theorem pipeline_submitted_for_every_topic:
  "agents crew = [planner, writer, editor]
   \<and> tasks crew = [plan, write_task, edit]
   \<and> distinct (agents crew) \<and> distinct (tasks crew)
   \<and> (\<forall>c w'. assemble ok lib w = Inr (c, w') \<longrightarrow>
        c = crew
      \<and> agents_script ok lib topic w = kickoff lib crew [''topic'' \<mapsto> topic] w')
   \<and> (\<forall>e w'. assemble ok lib w = Inl (e, w') \<longrightarrow>
        agents_script ok lib topic w = Inl (e, w'))
   \<and> agents_py ok lib w =
        agents_script ok lib ''AI Engineering and AI-first Engineering approach'' w"
proof -
  have da: "distinct (agents crew)"
    using agents_differ by (simp add: crew_def)
  have dt: "distinct (tasks crew)"
    using tasks_differ by (simp add: crew_def)
  have lists: "agents crew = [planner, writer, editor]" "tasks crew = [plan, write_task, edit]"
    by (simp_all add: crew_def)
  have py: "agents_py ok lib w =
        agents_script ok lib ''AI Engineering and AI-first Engineering approach'' w"
    by (simp add: agents_py_def)
  show ?thesis
    using da dt lists py assemble_crew agents_script_submits agents_script_fails
    by blast
qed

theorem pipeline_submitted_for_every_topic_witness:
  "returned (assemble True stub_library world_env_key) = Some crew
   \<and> returned (agents_script True stub_library ''AI'' world_env_key)
       = Some ''Article about AI''
   \<and> returned (agents_script True stub_library ''Rust'' world_env_key)
       = Some ''Article about Rust''
   \<and> raised (assemble True strict_library world_no_key_empty_typed)
       = Some (LibraryError ''no API key'')
   \<and> raised (agents_script True strict_library ''AI'' world_no_key_empty_typed)
       = Some (LibraryError ''no API key'')"
proof -
  note submits_ai = pipeline_submitted_for_every_topic
    [where ok = True and lib = stub_library and w = world_env_key and topic = "''AI''",
      THEN conjunct2, THEN conjunct2, THEN conjunct2, THEN conjunct2, THEN conjunct1,
      rule_format]
  note submits_rust = pipeline_submitted_for_every_topic
    [where ok = True and lib = stub_library and w = world_env_key and topic = "''Rust''",
      THEN conjunct2, THEN conjunct2, THEN conjunct2, THEN conjunct2, THEN conjunct1,
      rule_format]
  note submits_nothing = pipeline_submitted_for_every_topic
    [where ok = True and lib = strict_library and w = world_no_key_empty_typed
      and topic = "''AI''",
      THEN conjunct2, THEN conjunct2, THEN conjunct2, THEN conjunct2, THEN conjunct2,
      THEN conjunct1, rule_format]
  let ?w9 = "final_world (run_steps (construction_steps stub_library ''sk-env'')
               world_env_key)"
  have b1: "import_crewai stub_library world_env_key = Inr ((), world_env_key)"
    by simp
  have b2: "import_get_openai_api_key True world_env_key = Inr (''sk-env'', world_env_key)"
    by (simp add: import_get_openai_api_key_def resolver_world_env_key)
  have b3: "run_steps (construction_steps stub_library ''sk-env'') world_env_key
      = Inr ((), ?w9)"
    using steps_complete_world_env_key(1) by (rule completed_Inr)
  have built: "assemble True stub_library world_env_key = Inr (crew, ?w9)"
    using b1 b2 b3 by (rule assemble_completes)
  have ai: "agents_script True stub_library ''AI'' world_env_key
      = kickoff stub_library crew [''topic'' \<mapsto> ''AI''] ?w9"
    using submits_ai [OF built] by blast
  have rust: "agents_script True stub_library ''Rust'' world_env_key
      = kickoff stub_library crew [''topic'' \<mapsto> ''Rust''] ?w9"
    using submits_rust [OF built] by blast
  let ?w2 = "final_world (get_openai_api_key world_no_key_empty_typed)"
  let ?writes = "[os_environ_set OPENAI_API_KEY [],
                  os_environ_set OPENAI_MODEL_NAME ''gpt-4'']"
  let ?rest = "[Agent_init strict_library writer, Agent_init strict_library editor,
                Task_init strict_library plan, Task_init strict_library write_task,
                Task_init strict_library edit, Crew_init strict_library crew]"
  let ?w3 = "final_world (run_steps ?writes ?w2)"
  have s1: "import_crewai strict_library world_no_key_empty_typed
      = Inr ((), world_no_key_empty_typed)"
    by simp
  have s2: "import_get_openai_api_key True world_no_key_empty_typed = Inr ([], ?w2)"
    using returned_Inr [OF resolver_world_no_key_empty_typed(1)]
    by (simp add: import_get_openai_api_key_def)
  have s3: "construction_steps strict_library []
      = ?writes @ Agent_init strict_library planner # ?rest"
    by (simp add: construction_steps_def)
  have s4: "run_steps ?writes ?w2 = Inr ((), ?w3)"
    using writes_keep_empty_key(1) [OF resolver_world_no_key_empty_typed(2)]
    by (rule completed_Inr)
  have s5: "Agent_init strict_library planner ?w3 = Inl (LibraryError ''no API key'', ?w3)"
    using writes_keep_empty_key(2) [OF resolver_world_no_key_empty_typed(2)]
    by simp
  have failed: "assemble True strict_library world_no_key_empty_typed
      = Inl (LibraryError ''no API key'', ?w3)"
    using s1 s2 s3 s4 s5 by (rule assemble_step_fails)
  have unsubmitted: "agents_script True strict_library ''AI'' world_no_key_empty_typed
      = Inl (LibraryError ''no API key'', ?w3)"
    using failed by (rule submits_nothing)
  have 1: "returned (assemble True stub_library world_env_key) = Some crew"
    using built by (simp add: returned_def)
  have 2: "returned (agents_script True stub_library ''AI'' world_env_key)
      = Some ''Article about AI''"
    using ai by (simp add: returned_def stub_library_kickoff)
  have 3: "returned (agents_script True stub_library ''Rust'' world_env_key)
      = Some ''Article about Rust''"
    using rust by (simp add: returned_def stub_library_kickoff)
  have 4: "raised (assemble True strict_library world_no_key_empty_typed)
      = Some (LibraryError ''no API key'')"
    using failed by (simp add: raised_def)
  have 5: "raised (agents_script True strict_library ''AI'' world_no_key_empty_typed)
      = Some (LibraryError ''no API key'')"
    using unsubmitted by (simp add: raised_def)
  show ?thesis
    by (intro conjI 1 2 3 4 5)
qed

end
